theory Spec2Isabelle
  imports Main "HOL-Library.Word"
begin

section \<open>The unlocked wallet of fuels-ts: data model\<close>

text \<open>
  The development follows \<^verbatim>\<open>packages/account/src/wallet/base-wallet-unlocked.ts\<close>.
  Hex strings (keys, addresses, digests, signatures) are modelled by the bytes they
  encode. A transaction request is a mutable object: the model keeps the objects in a
  heap indexed by references, and every method of the wallet is a function from the
  world before the call to its result and the world after it. A thrown exception or a
  rejected promise is the \<open>Inl\<close> branch of the result.
\<close>

type_synonym bytes = "8 word list"
type_synonym ref = nat

datatype error =
    InvalidKeyError
  | InvalidInputError
  | UnknownOwnerError
  | CollaboratorError string
  | MissingProviderError

text \<open>
  Modelled from the spec: the class of transaction requests is not among the sources.
  The spec gives it an ordered sequence of inputs, each optionally referencing an owner
  address and associated with a witness slot, an ordered sequence of outputs, a witness
  list and the metadata needed for the digest.
\<close>

record Input =
  owner :: "bytes option"
  witnessIndex :: nat

record TransactionRequest =
  inputs :: "Input list"
  outputs :: "bytes list"
  metadata :: bytes
  witnesses :: "bytes list"

text \<open>Results of the provider are opaque to the wallet.\<close>

type_synonym TransactionResponse = string
type_synonym CallResult = string

text \<open>
  The option objects of the source. A field that the caller leaves out is
  \<open>undefined\<close> in TypeScript and \<open>None\<close> here.
\<close>

record ProviderSendTxParams =
  send_estimateTxDependencies :: "bool option"
  awaitExecution :: "bool option"

record EstimateTransactionParams =
  est_estimateTxDependencies :: "bool option"

record ProviderCallParams =
  utxoValidation :: "bool option"
  call_estimateTxDependencies :: "bool option"

text \<open>
  The provider is an external collaborator; the wallet uses four of its entry points,
  taken here as parameters. \<open>getChain\<close> stands for the synchronous
  \<^verbatim>\<open>getChain().consensusParameters.chainId.toNumber()\<close>;
  \<open>estimateTxDependencies\<close> rewrites the request it is given in place, so its
  result is the new content of that object.
\<close>

record Provider =
  getChain :: "error + nat"
  estimateTxDependencies :: "TransactionRequest \<Rightarrow> error + TransactionRequest"
  provider_sendTransaction ::
    "TransactionRequest \<Rightarrow> ProviderSendTxParams \<Rightarrow> error + TransactionResponse"
  provider_call :: "TransactionRequest \<Rightarrow> ProviderCallParams \<Rightarrow> error + CallResult"

text \<open>
  The cryptographic primitives and the keystore encryption are external as well:
  key validation, public-key and address derivation, the ECDSA signature, the message
  hash \<^verbatim>\<open>hashMessage\<close> of \<^verbatim>\<open>@fuel-ts/hasher\<close>, the hash behind the transaction id
  and \<^verbatim>\<open>encryptKeystoreWallet\<close>.
\<close>

record Crypto =
  validKey :: "bytes \<Rightarrow> bool"
  derivePublicKey :: "bytes \<Rightarrow> bytes"
  deriveAddress :: "bytes \<Rightarrow> bytes"
  ecdsaSign :: "bytes \<Rightarrow> bytes \<Rightarrow> bytes"
  hashMessage :: "string \<Rightarrow> bytes"
  hashTransaction :: "Input list \<Rightarrow> bytes list \<Rightarrow> bytes \<Rightarrow> nat \<Rightarrow> bytes"
  encryptKeystoreWallet :: "bytes \<Rightarrow> bytes \<Rightarrow> string \<Rightarrow> string"

record Signer =
  signer_privateKey :: bytes
  signer_publicKey :: bytes
  signer_address :: bytes

text \<open>
  The wallet: the signer behind the accessor \<^verbatim>\<open>signer()\<close>, which returns the same
  instance on every call, and the two fields of \<^verbatim>\<open>Account\<close>, the address and the
  optional provider.
\<close>

record BaseWalletUnlocked =
  signer :: Signer
  address :: bytes
  provider :: "Provider option"

text \<open>
  What a call leaves behind: the calls made to the provider, and the writes to the
  witness list of a request.
\<close>

datatype event =
    EvGetChain
  | EvEstimateTxDependencies ref
  | EvUpdateWitness ref bytes bytes
  | EvSendTransaction TransactionRequest ProviderSendTxParams
  | EvCall TransactionRequest ProviderCallParams

record world =
  heap :: "ref \<Rightarrow> TransactionRequest"
  trace :: "event list"

section \<open>The collaborators that are not among the sources\<close>

text \<open>
  Modelled from the spec: the class \<^verbatim>\<open>Signer\<close> is missing. Its construction accepts
  raw private-key bytes and fails with \<open>InvalidKeyError\<close> when they are outside the
  valid range; the public key is a function of the private key and the address a
  function of the public key.
\<close>

definition Signer_new :: "Crypto \<Rightarrow> bytes \<Rightarrow> error + Signer" where
  "Signer_new cr privateKey =
     (if validKey cr privateKey
      then Inr \<lparr>signer_privateKey = privateKey,
                signer_publicKey = derivePublicKey cr privateKey,
                signer_address = deriveAddress cr (derivePublicKey cr privateKey)\<rparr>
      else Inl InvalidKeyError)"

text \<open>
  Modelled from the spec: \<^verbatim>\<open>Signer.sign\<close> is missing. It signs a 32-byte digest with
  the stored private key and fails with \<open>InvalidInputError\<close> only if the digest has
  another length.
\<close>

definition Signer_sign :: "Crypto \<Rightarrow> Signer \<Rightarrow> bytes \<Rightarrow> error + bytes" where
  "Signer_sign cr s digest =
     (if length digest = 32 then Inr (ecdsaSign cr (signer_privateKey s) digest)
      else Inl InvalidInputError)"

text \<open>
  Modelled from the spec: \<^verbatim>\<open>transactionRequestify\<close> is missing. The spec hands
  transaction requests to the operations as they are, so on a request object it
  returns the same object.
\<close>

definition transactionRequestify :: "ref \<Rightarrow> ref" where
  "transactionRequestify obj = obj"

text \<open>
  Modelled from the spec: \<^verbatim>\<open>getTransactionId\<close> is missing. The signing digest is
  the hash of the inputs, the outputs, the metadata and the chain id; the contents of
  the witness list are not part of it.
\<close>

definition getTransactionId :: "Crypto \<Rightarrow> TransactionRequest \<Rightarrow> nat \<Rightarrow> bytes" where
  "getTransactionId cr tx chainId = hashTransaction cr (inputs tx) (outputs tx) (metadata tx) chainId"

text \<open>
  Modelled from the spec: the witness operations of the request are missing.
  \<open>resolveWitnessIndex\<close> scans the inputs in order and returns the witness slot of the
  first input owned by the address, or nothing.
\<close>

fun resolveWitnessIndex :: "Input list \<Rightarrow> bytes \<Rightarrow> nat option" where
  "resolveWitnessIndex [] a = None"
| "resolveWitnessIndex (i # rest) a =
     (if owner i = Some a then Some (witnessIndex i) else resolveWitnessIndex rest a)"

text \<open>
  Modelled from the spec: writing a slot overwrites it when it exists; otherwise the
  list grows contiguously up to that index, the slots in between holding an empty
  placeholder.
\<close>

definition setWitness :: "bytes list \<Rightarrow> nat \<Rightarrow> bytes \<Rightarrow> bytes list" where
  "setWitness ws i sig =
     (if i < length ws then ws[i := sig]
      else ws @ replicate (i - length ws) [] @ [sig])"

text \<open>
  Modelled from the spec: \<^verbatim>\<open>updateWitnessByOwner\<close> is missing. It resolves the slot
  of the owner and writes the signature there, and fails with \<open>UnknownOwnerError\<close>
  when the owner controls no input.
\<close>

definition updateWitnessByOwner ::
  "TransactionRequest \<Rightarrow> bytes \<Rightarrow> bytes \<Rightarrow> error + TransactionRequest" where
  "updateWitnessByOwner tx a sig =
     (case resolveWitnessIndex (inputs tx) a of
        None \<Rightarrow> Inl UnknownOwnerError
      | Some i \<Rightarrow> Inr (tx\<lparr>witnesses := setWitness (witnesses tx) i sig\<rparr>))"

section \<open>The wallet\<close>

text \<open>
  The constructor builds the signer from the key and passes the signer's address and
  the provider to \<^verbatim>\<open>Account\<close>.
\<close>

definition BaseWalletUnlocked_new ::
  "Crypto \<Rightarrow> bytes \<Rightarrow> Provider option \<Rightarrow> error + BaseWalletUnlocked" where
  "BaseWalletUnlocked_new cr privateKey prov =
     (case Signer_new cr privateKey of
        Inl e \<Rightarrow> Inl e
      | Inr s \<Rightarrow> Inr \<lparr>signer = s, address = signer_address s, provider = prov\<rparr>)"

definition privateKey :: "BaseWalletUnlocked \<Rightarrow> bytes" where
  "privateKey w = signer_privateKey (signer w)"

definition publicKey :: "BaseWalletUnlocked \<Rightarrow> bytes" where
  "publicKey w = signer_publicKey (signer w)"

definition signMessage ::
  "Crypto \<Rightarrow> BaseWalletUnlocked \<Rightarrow> string \<Rightarrow> world \<Rightarrow> (error + bytes) \<times> world" where
  "signMessage cr w message s = (Signer_sign cr (signer w) (hashMessage cr message), s)"

text \<open>
  \<^verbatim>\<open>this.provider\<close> of a wallet built without a provider cannot be used: the call
  that needs it fails before anything else happens.
\<close>

definition signTransaction ::
  "Crypto \<Rightarrow> BaseWalletUnlocked \<Rightarrow> ref \<Rightarrow> world \<Rightarrow> (error + bytes) \<times> world" where
  "signTransaction cr w transactionRequestLike s =
     (let transactionRequest = transactionRequestify transactionRequestLike in
      case provider w of
        None \<Rightarrow> (Inl MissingProviderError, s)
      | Some p \<Rightarrow>
          (let s1 = s\<lparr>trace := trace s @ [EvGetChain]\<rparr> in
           case getChain p of
             Inl e \<Rightarrow> (Inl e, s1)
           | Inr chainId \<Rightarrow>
               (let hashedTransaction = getTransactionId cr (heap s1 transactionRequest) chainId
                in (Signer_sign cr (signer w) hashedTransaction, s1))))"

definition populateTransactionWitnessesSignature ::
  "Crypto \<Rightarrow> BaseWalletUnlocked \<Rightarrow> ref \<Rightarrow> world \<Rightarrow> (error + ref) \<times> world" where
  "populateTransactionWitnessesSignature cr w transactionRequestLike s =
     (let transactionRequest = transactionRequestify transactionRequestLike in
      case signTransaction cr w transactionRequest s of
        (Inl e, s1) \<Rightarrow> (Inl e, s1)
      | (Inr signedTransaction, s1) \<Rightarrow>
          (case updateWitnessByOwner (heap s1 transactionRequest) (address w) signedTransaction of
             Inl e \<Rightarrow> (Inl e, s1)
           | Inr tx' \<Rightarrow>
               (Inr transactionRequest,
                s1\<lparr>heap := (heap s1)(transactionRequest := tx'),
                   trace := trace s1 @ [EvUpdateWitness transactionRequest (address w) signedTransaction]\<rparr>)))"

text \<open>The call \<^verbatim>\<open>await this.provider.estimateTxDependencies(transactionRequest)\<close>.\<close>

definition callEstimateTxDependencies ::
  "BaseWalletUnlocked \<Rightarrow> ref \<Rightarrow> world \<Rightarrow> (error + unit) \<times> world" where
  "callEstimateTxDependencies w transactionRequest s =
     (case provider w of
        None \<Rightarrow> (Inl MissingProviderError, s)
      | Some p \<Rightarrow>
          (let s1 = s\<lparr>trace := trace s @ [EvEstimateTxDependencies transactionRequest]\<rparr> in
           case estimateTxDependencies p (heap s1 transactionRequest) of
             Inl e \<Rightarrow> (Inl e, s1)
           | Inr tx' \<Rightarrow> (Inr (), s1\<lparr>heap := (heap s1)(transactionRequest := tx')\<rparr>)))"

text \<open>
  In both methods the option \<^verbatim>\<open>estimateTxDependencies\<close> defaults to true, and the
  callee \<^verbatim>\<open>this.provider.sendTransaction\<close> (or \<^verbatim>\<open>this.provider.call\<close>) is evaluated
  before its arguments.
\<close>

definition sendTransaction ::
  "Crypto \<Rightarrow> BaseWalletUnlocked \<Rightarrow> ref \<Rightarrow> ProviderSendTxParams \<Rightarrow> world
     \<Rightarrow> (error + TransactionResponse) \<times> world" where
  "sendTransaction cr w transactionRequestLike opts s =
     (let transactionRequest = transactionRequestify transactionRequestLike;
          estimate = (case send_estimateTxDependencies opts of None \<Rightarrow> True | Some b \<Rightarrow> b)
      in
      case (if estimate then callEstimateTxDependencies w transactionRequest s else (Inr (), s)) of
        (Inl e, s1) \<Rightarrow> (Inl e, s1)
      | (Inr _, s1) \<Rightarrow>
          (case provider w of
             None \<Rightarrow> (Inl MissingProviderError, s1)
           | Some p \<Rightarrow>
               (case populateTransactionWitnessesSignature cr w transactionRequest s1 of
                  (Inl e, s2) \<Rightarrow> (Inl e, s2)
                | (Inr populated, s2) \<Rightarrow>
                    (let params = \<lparr>send_estimateTxDependencies = Some False,
                                   awaitExecution = awaitExecution opts\<rparr>
                     in (provider_sendTransaction p (heap s2 populated) params,
                         s2\<lparr>trace := trace s2 @ [EvSendTransaction (heap s2 populated) params]\<rparr>)))))"

definition simulateTransaction ::
  "Crypto \<Rightarrow> BaseWalletUnlocked \<Rightarrow> ref \<Rightarrow> EstimateTransactionParams \<Rightarrow> world
     \<Rightarrow> (error + CallResult) \<times> world" where
  "simulateTransaction cr w transactionRequestLike opts s =
     (let transactionRequest = transactionRequestify transactionRequestLike;
          estimate = (case est_estimateTxDependencies opts of None \<Rightarrow> True | Some b \<Rightarrow> b)
      in
      case (if estimate then callEstimateTxDependencies w transactionRequest s else (Inr (), s)) of
        (Inl e, s1) \<Rightarrow> (Inl e, s1)
      | (Inr _, s1) \<Rightarrow>
          (case provider w of
             None \<Rightarrow> (Inl MissingProviderError, s1)
           | Some p \<Rightarrow>
               (case populateTransactionWitnessesSignature cr w transactionRequest s1 of
                  (Inl e, s2) \<Rightarrow> (Inl e, s2)
                | (Inr populated, s2) \<Rightarrow>
                    (let params = \<lparr>utxoValidation = Some True,
                                   call_estimateTxDependencies = Some False\<rparr>
                     in (provider_call p (heap s2 populated) params,
                         s2\<lparr>trace := trace s2 @ [EvCall (heap s2 populated) params]\<rparr>)))))"

definition encrypt :: "Crypto \<Rightarrow> BaseWalletUnlocked \<Rightarrow> string \<Rightarrow> string" where
  "encrypt cr w password = encryptKeystoreWallet cr (privateKey w) (address w) password"

section \<open>Observing a call\<close>

text \<open>The events that a call appended to the trace of the world it started in.\<close>

definition emitted :: "world \<Rightarrow> world \<Rightarrow> event list" where
  "emitted s s' = drop (length (trace s)) (trace s')"

text \<open>
  The estimation event that a call emits before it populates the witnesses: one when
  its option \<^verbatim>\<open>estimateTxDependencies\<close> is absent or true, none when it is false.
\<close>

definition estimateEvents :: "bool option \<Rightarrow> ref \<Rightarrow> event list" where
  "estimateEvents flag r =
     (if (case flag of None \<Rightarrow> True | Some b \<Rightarrow> b) then [EvEstimateTxDependencies r] else [])"

fun isEstimate :: "event \<Rightarrow> bool" where
  "isEstimate (EvEstimateTxDependencies _) = True"
| "isEstimate _ = False"

text \<open>
  The flags that reach the provider: a submission carries
  \<^verbatim>\<open>estimateTxDependencies: false\<close>, a simulation carries \<^verbatim>\<open>utxoValidation: true\<close>
  and \<^verbatim>\<open>estimateTxDependencies: false\<close>.
\<close>

fun estimationDisabled :: "event \<Rightarrow> bool" where
  "estimationDisabled (EvSendTransaction _ params) =
     (send_estimateTxDependencies params = Some False)"
| "estimationDisabled (EvCall _ params) =
     (utxoValidation params = Some True \<and> call_estimateTxDependencies params = Some False)"
| "estimationDisabled _ = True"

text \<open>
  The state machine of the spec, per submission attempt:
  \<open>Unsigned \<rightarrow> DependenciesEstimated (optional) \<rightarrow> Witnessed \<rightarrow> Submitted | Simulated\<close>.
  Reading the chain id is part of signing and leaves the phase as it is; every other
  move is refused.
\<close>

datatype phase = Unsigned | DependenciesEstimated | Witnessed | Submitted | Simulated

fun advance :: "phase \<Rightarrow> event \<Rightarrow> phase option" where
  "advance Unsigned (EvEstimateTxDependencies _) = Some DependenciesEstimated"
| "advance Unsigned EvGetChain = Some Unsigned"
| "advance DependenciesEstimated EvGetChain = Some DependenciesEstimated"
| "advance Unsigned (EvUpdateWitness _ _ _) = Some Witnessed"
| "advance DependenciesEstimated (EvUpdateWitness _ _ _) = Some Witnessed"
| "advance Witnessed (EvSendTransaction _ _) = Some Submitted"
| "advance Witnessed (EvCall _ _) = Some Simulated"
| "advance _ _ = None"

fun run :: "phase \<Rightarrow> event list \<Rightarrow> phase option" where
  "run ph [] = Some ph"
| "run ph (e # es) = (case advance ph e of None \<Rightarrow> None | Some ph' \<Rightarrow> run ph' es)"

section \<open>A small instance\<close>

text \<open>
  Concrete collaborators, on which the definitions can be evaluated. The signature
  keeps the first byte of the key only, so that two different keys can sign alike.
\<close>

definition demo_crypto :: Crypto where
  "demo_crypto =
     \<lparr>validKey = (\<lambda>k. length k = 2),
      derivePublicKey = (\<lambda>k. take 1 k),
      deriveAddress = (\<lambda>pk. pk @ pk),
      ecdsaSign = (\<lambda>k d. take 1 k @ take 1 d),
      hashMessage = (\<lambda>m. replicate 32 (of_nat (length m))),
      hashTransaction = (\<lambda>ins outs meta c. replicate 32 (of_nat (length ins + c))),
      encryptKeystoreWallet = (\<lambda>k a pw. pw)\<rparr>"

definition demo_provider :: Provider where
  "demo_provider =
     \<lparr>getChain = Inr 0,
      estimateTxDependencies = (\<lambda>tx. Inr (tx\<lparr>outputs := [] # outputs tx\<rparr>)),
      provider_sendTransaction = (\<lambda>tx params. Inr ''sent''),
      provider_call = (\<lambda>tx params. Inr ''called'')\<rparr>"

definition demo_wallet :: BaseWalletUnlocked where
  "demo_wallet =
     \<lparr>signer = \<lparr>signer_privateKey = [7, 1], signer_publicKey = [7], signer_address = [7, 7]\<rparr>,
      address = [7, 7],
      provider = Some demo_provider\<rparr>"

definition other_wallet :: BaseWalletUnlocked where
  "other_wallet =
     \<lparr>signer = \<lparr>signer_privateKey = [7, 2], signer_publicKey = [7], signer_address = [7, 7]\<rparr>,
      address = [7, 7],
      provider = Some demo_provider\<rparr>"

definition owned_tx :: TransactionRequest where
  "owned_tx =
     \<lparr>inputs = [\<lparr>owner = Some [7, 7], witnessIndex = 0\<rparr>],
      outputs = [], metadata = [], witnesses = []\<rparr>"

definition foreign_tx :: TransactionRequest where
  "foreign_tx =
     \<lparr>inputs = [\<lparr>owner = Some [9, 9], witnessIndex = 0\<rparr>, \<lparr>owner = None, witnessIndex = 1\<rparr>],
      outputs = [], metadata = [], witnesses = []\<rparr>"

definition demo_world :: world where
  "demo_world = \<lparr>heap = (\<lambda>r. if r = 0 then owned_tx else foreign_tx), trace = []\<rparr>"

section \<open>How each method runs\<close>

lemma setWitness_length: "i < length (setWitness ws i sig)"
  by (simp add: setWitness_def)

lemma setWitness_overwrite: "setWitness (setWitness ws i a) i b = setWitness ws i b"
proof (cases "i < length ws")
  case True
  then show ?thesis by (simp add: setWitness_def)
next
  case False
  define pad where "pad = ws @ replicate (i - length ws) []"
  have len: "length pad = i" using False by (simp add: pad_def)
  have grown: "setWitness ws i c = pad @ [c]" for c
    using False by (simp add: setWitness_def pad_def)
  have "setWitness (pad @ [a]) i b = (pad @ [a])[length pad := b]"
    by (simp add: setWitness_def len)
  also have "\<dots> = pad @ [b]"
    by (simp only: list_update_length)
  finally show ?thesis by (simp add: grown)
qed

lemma signTransaction_world:
  "snd (signTransaction cr w r s) =
     s\<lparr>trace := trace s @ (case provider w of None \<Rightarrow> [] | Some p \<Rightarrow> [EvGetChain])\<rparr>"
  by (simp add: signTransaction_def Let_def split: option.split sum.split)

lemma signTransaction_result:
  "fst (signTransaction cr w r s) =
     (case provider w of
        None \<Rightarrow> Inl MissingProviderError
      | Some p \<Rightarrow>
          (case getChain p of
             Inl e \<Rightarrow> Inl e
           | Inr chainId \<Rightarrow> Signer_sign cr (signer w) (getTransactionId cr (heap s r) chainId)))"
  by (simp add: signTransaction_def transactionRequestify_def Let_def split: option.split sum.split)

lemma populate_unfold:
  "populateTransactionWitnessesSignature cr w r s =
     (case fst (signTransaction cr w r s) of
        Inl e \<Rightarrow> (Inl e, snd (signTransaction cr w r s))
      | Inr sig \<Rightarrow>
          (case updateWitnessByOwner (heap s r) (address w) sig of
             Inl e \<Rightarrow> (Inl e, snd (signTransaction cr w r s))
           | Inr tx' \<Rightarrow>
               (Inr r, (snd (signTransaction cr w r s))
                         \<lparr>heap := (heap s)(r := tx'),
                          trace := trace (snd (signTransaction cr w r s))
                                     @ [EvUpdateWitness r (address w) sig]\<rparr>)))"
proof (cases "signTransaction cr w r s")
  case (Pair res s1)
  then have "s1 = snd (signTransaction cr w r s)" by simp
  then have h: "heap s1 = heap s" by (simp add: signTransaction_world)
  show ?thesis
    by (simp add: populateTransactionWitnessesSignature_def transactionRequestify_def Pair h
          split: sum.split)
qed

lemma populate_cases [case_names no_provider chain_failed sign_failed unknown_owner witnessed]:
  obtains
    "provider w = None"
    "populateTransactionWitnessesSignature cr w r s = (Inl MissingProviderError, s)"
  | p e where "provider w = Some p" "getChain p = Inl e"
    "populateTransactionWitnessesSignature cr w r s = (Inl e, s\<lparr>trace := trace s @ [EvGetChain]\<rparr>)"
  | p c e where "provider w = Some p" "getChain p = Inr c"
    "Signer_sign cr (signer w) (getTransactionId cr (heap s r) c) = Inl e"
    "populateTransactionWitnessesSignature cr w r s = (Inl e, s\<lparr>trace := trace s @ [EvGetChain]\<rparr>)"
  | p c sig where "provider w = Some p" "getChain p = Inr c"
    "Signer_sign cr (signer w) (getTransactionId cr (heap s r) c) = Inr sig"
    "resolveWitnessIndex (inputs (heap s r)) (address w) = None"
    "populateTransactionWitnessesSignature cr w r s =
       (Inl UnknownOwnerError, s\<lparr>trace := trace s @ [EvGetChain]\<rparr>)"
  | p c sig i where "provider w = Some p" "getChain p = Inr c"
    "Signer_sign cr (signer w) (getTransactionId cr (heap s r) c) = Inr sig"
    "resolveWitnessIndex (inputs (heap s r)) (address w) = Some i"
    "populateTransactionWitnessesSignature cr w r s =
       (Inr r, s\<lparr>heap := (heap s)(r := (heap s r)\<lparr>witnesses := setWitness (witnesses (heap s r)) i sig\<rparr>),
                 trace := trace s @ [EvGetChain, EvUpdateWitness r (address w) sig]\<rparr>)"
proof (cases "provider w")
  case None
  then show ?thesis
    using that(1) by (simp add: populate_unfold signTransaction_result signTransaction_world)
next
  case (Some p)
  show ?thesis
  proof (cases "getChain p")
    case (Inl e)
    then show ?thesis
      using Some that(2) by (simp add: populate_unfold signTransaction_result signTransaction_world)
  next
    case (Inr c)
    show ?thesis
    proof (cases "Signer_sign cr (signer w) (getTransactionId cr (heap s r) c)")
      case (Inl e)
      then show ?thesis
        using Some Inr that(3)
        by (simp add: populate_unfold signTransaction_result signTransaction_world)
    next
      case sig: (Inr sig)
      show ?thesis
      proof (cases "resolveWitnessIndex (inputs (heap s r)) (address w)")
        case None
        then show ?thesis
          using Some Inr sig that(4)
          by (simp add: populate_unfold signTransaction_result signTransaction_world
                updateWitnessByOwner_def)
      next
        case (Some i)
        then show ?thesis
          using \<open>provider w = Some p\<close> Inr sig that(5)
          by (simp add: populate_unfold signTransaction_result signTransaction_world
                updateWitnessByOwner_def)
      qed
    qed
  qed
qed


lemma callEstimate_cases [case_names no_provider estimate_failed estimated]:
  obtains
    "provider w = None"
    "callEstimateTxDependencies w r s = (Inl MissingProviderError, s)"
  | p e where "provider w = Some p" "estimateTxDependencies p (heap s r) = Inl e"
    "callEstimateTxDependencies w r s =
       (Inl e, s\<lparr>trace := trace s @ [EvEstimateTxDependencies r]\<rparr>)"
  | p tx' where "provider w = Some p" "estimateTxDependencies p (heap s r) = Inr tx'"
    "callEstimateTxDependencies w r s =
       (Inr (), s\<lparr>heap := (heap s)(r := tx'), trace := trace s @ [EvEstimateTxDependencies r]\<rparr>)"
proof (cases "provider w")
  case None
  then show ?thesis using that(1) by (simp add: callEstimateTxDependencies_def)
next
  case (Some p)
  then show ?thesis
    using that(2,3) by (cases "estimateTxDependencies p (heap s r)")
      (simp_all add: callEstimateTxDependencies_def Let_def)
qed

text \<open>The world in which the witnesses are populated: after the optional estimation.\<close>

lemma estimation_step [consumes 1, case_names failed passed]:
  assumes "provider w = Some p"
  obtains e where
      "(case flag of None \<Rightarrow> True | Some b \<Rightarrow> b)"
      "(if (case flag of None \<Rightarrow> True | Some b \<Rightarrow> b)
        then callEstimateTxDependencies w r s else (Inr (), s))
       = (Inl e, s\<lparr>trace := trace s @ estimateEvents flag r\<rparr>)"
  | h where
      "(if (case flag of None \<Rightarrow> True | Some b \<Rightarrow> b)
        then callEstimateTxDependencies w r s else (Inr (), s))
       = (Inr (), s\<lparr>heap := h, trace := trace s @ estimateEvents flag r\<rparr>)"
proof (cases "(case flag of None \<Rightarrow> True | Some b \<Rightarrow> b)")
  case False
  then show ?thesis using that(2)[of "heap s"] by (simp add: estimateEvents_def)
next
  case True
  show ?thesis
  proof (cases rule: callEstimate_cases[where w = w and r = r and s = s])
    case no_provider
    then show ?thesis using assms by simp
  next
    case (estimate_failed p e)
    then show ?thesis using True that(1) by (simp add: estimateEvents_def)
  next
    case (estimated p tx')
    then show ?thesis using True that(2) by (simp add: estimateEvents_def)
  qed
qed

lemma sendTransaction_cases [case_names no_provider estimate_failed not_witnessed submitted]:
  obtains
    "provider w = None"
    "sendTransaction cr w r opts s = (Inl MissingProviderError, s)"
  | p e where "provider w = Some p" "send_estimateTxDependencies opts \<noteq> Some False"
    "sendTransaction cr w r opts s =
       (Inl e, s\<lparr>trace := trace s @ estimateEvents (send_estimateTxDependencies opts) r\<rparr>)"
  | p e h where "provider w = Some p"
    "sendTransaction cr w r opts s =
       (Inl e, s\<lparr>heap := h,
                 trace := trace s @ estimateEvents (send_estimateTxDependencies opts) r
                            @ [EvGetChain]\<rparr>)"
  | p h sig where "provider w = Some p"
    "sendTransaction cr w r opts s =
       (provider_sendTransaction p (h r)
          \<lparr>send_estimateTxDependencies = Some False, awaitExecution = awaitExecution opts\<rparr>,
        s\<lparr>heap := h,
          trace := trace s @ estimateEvents (send_estimateTxDependencies opts) r
                     @ [EvGetChain, EvUpdateWitness r (address w) sig,
                        EvSendTransaction (h r)
                          \<lparr>send_estimateTxDependencies = Some False,
                           awaitExecution = awaitExecution opts\<rparr>]\<rparr>)"
proof (cases "provider w")
  case None
  then show ?thesis
    using that(1)
    by (simp add: sendTransaction_def callEstimateTxDependencies_def transactionRequestify_def)
next
  case (Some p)
  from Some show ?thesis
  proof (cases rule: estimation_step[where flag = "send_estimateTxDependencies opts"
        and r = r and s = s])
    case (failed e)
    then show ?thesis
      using Some that(2)[of p e]
      by (auto simp: sendTransaction_def transactionRequestify_def split: option.splits)
  next
    case (passed h)
    define s1 where "s1 = s\<lparr>heap := h, trace := trace s @ estimateEvents (send_estimateTxDependencies opts) r\<rparr>"
    note step = passed[folded s1_def]
    show ?thesis
    proof (cases rule: populate_cases[where w = w and cr = cr and r = r and s = s1])
      case no_provider
      then show ?thesis using Some by simp
    next
      case (chain_failed p' e)
      then show ?thesis
        using Some step that(3)[of p e h]
        by (simp add: sendTransaction_def transactionRequestify_def s1_def)
    next
      case (sign_failed p' c e)
      then show ?thesis
        using Some step that(3)[of p e h]
        by (simp add: sendTransaction_def transactionRequestify_def s1_def)
    next
      case (unknown_owner p' c sig)
      then show ?thesis
        using Some step that(3)[of p UnknownOwnerError h]
        by (simp add: sendTransaction_def transactionRequestify_def s1_def)
    next
      case (witnessed p' c sig i)
      then show ?thesis
        using Some step
          that(4)[of p "(heap s1)(r := (heap s1 r)\<lparr>witnesses := setWitness (witnesses (heap s1 r)) i sig\<rparr>)" sig]
        by (simp add: sendTransaction_def transactionRequestify_def s1_def Let_def)
    qed
  qed
qed

lemma simulateTransaction_cases [case_names no_provider estimate_failed not_witnessed simulated]:
  obtains
    "provider w = None"
    "simulateTransaction cr w r opts s = (Inl MissingProviderError, s)"
  | p e where "provider w = Some p" "est_estimateTxDependencies opts \<noteq> Some False"
    "simulateTransaction cr w r opts s =
       (Inl e, s\<lparr>trace := trace s @ estimateEvents (est_estimateTxDependencies opts) r\<rparr>)"
  | p e h where "provider w = Some p"
    "simulateTransaction cr w r opts s =
       (Inl e, s\<lparr>heap := h,
                 trace := trace s @ estimateEvents (est_estimateTxDependencies opts) r
                            @ [EvGetChain]\<rparr>)"
  | p h sig where "provider w = Some p"
    "simulateTransaction cr w r opts s =
       (provider_call p (h r)
          \<lparr>utxoValidation = Some True, call_estimateTxDependencies = Some False\<rparr>,
        s\<lparr>heap := h,
          trace := trace s @ estimateEvents (est_estimateTxDependencies opts) r
                     @ [EvGetChain, EvUpdateWitness r (address w) sig,
                        EvCall (h r)
                          \<lparr>utxoValidation = Some True,
                           call_estimateTxDependencies = Some False\<rparr>]\<rparr>)"
proof (cases "provider w")
  case None
  then show ?thesis
    using that(1)
    by (simp add: simulateTransaction_def callEstimateTxDependencies_def transactionRequestify_def)
next
  case (Some p)
  from Some show ?thesis
  proof (cases rule: estimation_step[where flag = "est_estimateTxDependencies opts"
        and r = r and s = s])
    case (failed e)
    then show ?thesis
      using Some that(2)[of p e]
      by (auto simp: simulateTransaction_def transactionRequestify_def split: option.splits)
  next
    case (passed h)
    define s1 where "s1 = s\<lparr>heap := h, trace := trace s @ estimateEvents (est_estimateTxDependencies opts) r\<rparr>"
    note step = passed[folded s1_def]
    show ?thesis
    proof (cases rule: populate_cases[where w = w and cr = cr and r = r and s = s1])
      case no_provider
      then show ?thesis using Some by simp
    next
      case (chain_failed p' e)
      then show ?thesis
        using Some step that(3)[of p e h]
        by (simp add: simulateTransaction_def transactionRequestify_def s1_def)
    next
      case (sign_failed p' c e)
      then show ?thesis
        using Some step that(3)[of p e h]
        by (simp add: simulateTransaction_def transactionRequestify_def s1_def)
    next
      case (unknown_owner p' c sig)
      then show ?thesis
        using Some step that(3)[of p UnknownOwnerError h]
        by (simp add: simulateTransaction_def transactionRequestify_def s1_def)
    next
      case (witnessed p' c sig i)
      then show ?thesis
        using Some step
          that(4)[of p "(heap s1)(r := (heap s1 r)\<lparr>witnesses := setWitness (witnesses (heap s1 r)) i sig\<rparr>)" sig]
        by (simp add: simulateTransaction_def transactionRequestify_def s1_def Let_def)
    qed
  qed
qed

lemmas demo_defs =
  demo_crypto_def demo_provider_def demo_wallet_def other_wallet_def
  owned_tx_def foreign_tx_def demo_world_def

lemmas method_defs =
  sendTransaction_def simulateTransaction_def populateTransactionWitnessesSignature_def
  signTransaction_def callEstimateTxDependencies_def transactionRequestify_def
  signMessage_def Signer_sign_def getTransactionId_def updateWitnessByOwner_def
  setWitness_def emitted_def

lemma resolveWitnessIndex_None:
  "resolveWitnessIndex ins a = None \<longleftrightarrow> (\<forall>i \<in> set ins. owner i \<noteq> Some a)"
  by (induction ins) auto

lemma updateWitnessByOwner_idem:
  "updateWitnessByOwner tx a sig = Inr tx1 \<Longrightarrow> updateWitnessByOwner tx1 a sig = Inr tx1"
  by (auto simp: updateWitnessByOwner_def setWitness_overwrite split: option.splits)

lemma populate_twice:
  "heap (snd (populateTransactionWitnessesSignature cr w r
            (snd (populateTransactionWitnessesSignature cr w r s))))
     = heap (snd (populateTransactionWitnessesSignature cr w r s))
   \<and> fst (populateTransactionWitnessesSignature cr w r
            (snd (populateTransactionWitnessesSignature cr w r s)))
     = fst (populateTransactionWitnessesSignature cr w r s)"
proof (cases rule: populate_cases[where cr = cr and w = w and r = r and s = s])
  case no_provider
  then show ?thesis by simp
next
  case (chain_failed p e)
  then show ?thesis
    by (simp add: populate_unfold signTransaction_result signTransaction_world)
next
  case (sign_failed p c e)
  then show ?thesis
    by (simp add: populate_unfold signTransaction_result signTransaction_world)
next
  case (unknown_owner p c sig)
  then show ?thesis
    by (simp add: populate_unfold signTransaction_result signTransaction_world
          updateWitnessByOwner_def)
next
  case (witnessed p c sig i)
  then show ?thesis
    by (simp add: populate_unfold signTransaction_result signTransaction_world
          updateWitnessByOwner_def getTransactionId_def setWitness_overwrite)
qed

lemma sendTransaction_order:
  "trace (snd (sendTransaction cr w r opts s))
     = trace s @ emitted s (snd (sendTransaction cr w r opts s))
   \<and> run Unsigned (emitted s (snd (sendTransaction cr w r opts s))) \<noteq> None
   \<and> (\<forall>resp. fst (sendTransaction cr w r opts s) = Inr resp \<longrightarrow>
         run Unsigned (emitted s (snd (sendTransaction cr w r opts s))) = Some Submitted)
   \<and> \<not> list_ex isEstimate (tl (emitted s (snd (sendTransaction cr w r opts s))))
   \<and> (send_estimateTxDependencies opts = Some False \<longrightarrow>
         \<not> list_ex isEstimate (emitted s (snd (sendTransaction cr w r opts s))))
   \<and> (send_estimateTxDependencies opts \<noteq> Some False \<longrightarrow> provider w \<noteq> None \<longrightarrow>
         take 1 (emitted s (snd (sendTransaction cr w r opts s))) = [EvEstimateTxDependencies r])"
proof (cases rule: sendTransaction_cases[where cr = cr and w = w and r = r and opts = opts and s = s])
  case no_provider
  then show ?thesis by (simp add: emitted_def)
next
  case (estimate_failed p e)
  then show ?thesis by (auto simp: emitted_def estimateEvents_def split: option.splits)
next
  case (not_witnessed p e h)
  then show ?thesis by (auto simp: emitted_def estimateEvents_def split: option.splits)
next
  case (submitted p h sig)
  then show ?thesis by (auto simp: emitted_def estimateEvents_def split: option.splits)
qed

lemma simulateTransaction_order:
  "trace (snd (simulateTransaction cr w r opts s))
     = trace s @ emitted s (snd (simulateTransaction cr w r opts s))
   \<and> run Unsigned (emitted s (snd (simulateTransaction cr w r opts s))) \<noteq> None
   \<and> (\<forall>res. fst (simulateTransaction cr w r opts s) = Inr res \<longrightarrow>
         run Unsigned (emitted s (snd (simulateTransaction cr w r opts s))) = Some Simulated)
   \<and> \<not> list_ex isEstimate (tl (emitted s (snd (simulateTransaction cr w r opts s))))
   \<and> (est_estimateTxDependencies opts = Some False \<longrightarrow>
         \<not> list_ex isEstimate (emitted s (snd (simulateTransaction cr w r opts s))))
   \<and> (est_estimateTxDependencies opts \<noteq> Some False \<longrightarrow> provider w \<noteq> None \<longrightarrow>
         take 1 (emitted s (snd (simulateTransaction cr w r opts s))) = [EvEstimateTxDependencies r])"
proof (cases rule: simulateTransaction_cases[where cr = cr and w = w and r = r and opts = opts and s = s])
  case no_provider
  then show ?thesis by (simp add: emitted_def)
next
  case (estimate_failed p e)
  then show ?thesis by (auto simp: emitted_def estimateEvents_def split: option.splits)
next
  case (not_witnessed p e h)
  then show ?thesis by (auto simp: emitted_def estimateEvents_def split: option.splits)
next
  case (simulated p h sig)
  then show ?thesis by (auto simp: emitted_def estimateEvents_def split: option.splits)
qed

lemma sendTransaction_flags:
  "list_all estimationDisabled (emitted s (snd (sendTransaction cr w r opts s)))
   \<and> (\<forall>resp. fst (sendTransaction cr w r opts s) = Inr resp \<longrightarrow>
        (\<exists>tx. last (emitted s (snd (sendTransaction cr w r opts s)))
                = EvSendTransaction tx
                    \<lparr>send_estimateTxDependencies = Some False,
                     awaitExecution = awaitExecution opts\<rparr>))"
proof (cases rule: sendTransaction_cases[where cr = cr and w = w and r = r and opts = opts and s = s])
  case no_provider
  then show ?thesis by (simp add: emitted_def)
next
  case (estimate_failed p e)
  then show ?thesis by (simp add: emitted_def estimateEvents_def)
next
  case (not_witnessed p e h)
  then show ?thesis by (simp add: emitted_def estimateEvents_def)
next
  case (submitted p h sig)
  then show ?thesis by (simp add: emitted_def estimateEvents_def)
qed

lemma simulateTransaction_flags:
  "list_all estimationDisabled (emitted s (snd (simulateTransaction cr w r opts s)))
   \<and> (\<forall>res. fst (simulateTransaction cr w r opts s) = Inr res \<longrightarrow>
        (\<exists>tx. last (emitted s (snd (simulateTransaction cr w r opts s)))
                = EvCall tx \<lparr>utxoValidation = Some True,
                              call_estimateTxDependencies = Some False\<rparr>))"
proof (cases rule: simulateTransaction_cases[where cr = cr and w = w and r = r and opts = opts and s = s])
  case no_provider
  then show ?thesis by (simp add: emitted_def)
next
  case (estimate_failed p e)
  then show ?thesis by (simp add: emitted_def estimateEvents_def)
next
  case (not_witnessed p e h)
  then show ?thesis by (simp add: emitted_def estimateEvents_def)
next
  case (simulated p h sig)
  then show ?thesis by (simp add: emitted_def estimateEvents_def)
qed

section \<open>Order of the steps of a submission\<close>

text \<open>
  Claim C1. In every call of \<^verbatim>\<open>sendTransaction\<close> and of \<^verbatim>\<open>simulateTransaction\<close> the
  steps come in the strict order: dependency estimation, only if the option is enabled,
  first; then the population of the witnesses; then the call that submits or simulates.
  Estimation never follows witness population. Here: the events of a call are accepted
  by the state machine \<open>Unsigned \<rightarrow> DependenciesEstimated \<rightarrow> Witnessed \<rightarrow> Submitted | Simulated\<close>,
  a call that returns has reached its last phase, an estimation is the first event or
  does not occur, it does not occur at all when the option is false, and it is the first
  event when the option is absent or true.
\<close>

theorem steps_in_strict_order:
  "(trace (snd (sendTransaction cr w r opts s))
      = trace s @ emitted s (snd (sendTransaction cr w r opts s))
    \<and> run Unsigned (emitted s (snd (sendTransaction cr w r opts s))) \<noteq> None
    \<and> (\<forall>resp. fst (sendTransaction cr w r opts s) = Inr resp \<longrightarrow>
          run Unsigned (emitted s (snd (sendTransaction cr w r opts s))) = Some Submitted)
    \<and> \<not> list_ex isEstimate (tl (emitted s (snd (sendTransaction cr w r opts s))))
    \<and> (send_estimateTxDependencies opts = Some False \<longrightarrow>
          \<not> list_ex isEstimate (emitted s (snd (sendTransaction cr w r opts s))))
    \<and> (send_estimateTxDependencies opts \<noteq> Some False \<longrightarrow> provider w \<noteq> None \<longrightarrow>
          take 1 (emitted s (snd (sendTransaction cr w r opts s))) = [EvEstimateTxDependencies r]))
   \<and> (trace (snd (simulateTransaction cr w r opts' s))
      = trace s @ emitted s (snd (simulateTransaction cr w r opts' s))
    \<and> run Unsigned (emitted s (snd (simulateTransaction cr w r opts' s))) \<noteq> None
    \<and> (\<forall>res. fst (simulateTransaction cr w r opts' s) = Inr res \<longrightarrow>
          run Unsigned (emitted s (snd (simulateTransaction cr w r opts' s))) = Some Simulated)
    \<and> \<not> list_ex isEstimate (tl (emitted s (snd (simulateTransaction cr w r opts' s))))
    \<and> (est_estimateTxDependencies opts' = Some False \<longrightarrow>
          \<not> list_ex isEstimate (emitted s (snd (simulateTransaction cr w r opts' s))))
    \<and> (est_estimateTxDependencies opts' \<noteq> Some False \<longrightarrow> provider w \<noteq> None \<longrightarrow>
          take 1 (emitted s (snd (simulateTransaction cr w r opts' s)))
            = [EvEstimateTxDependencies r]))"
  by (rule conjI[OF sendTransaction_order simulateTransaction_order])

theorem steps_in_strict_order_witness:
  "fst (sendTransaction demo_crypto demo_wallet 0
          \<lparr>send_estimateTxDependencies = None, awaitExecution = None\<rparr> demo_world) = Inr ''sent''
   \<and> run Unsigned (emitted demo_world (snd (sendTransaction demo_crypto demo_wallet 0
          \<lparr>send_estimateTxDependencies = None, awaitExecution = None\<rparr> demo_world)))
       = Some Submitted
   \<and> fst (simulateTransaction demo_crypto demo_wallet 0
          \<lparr>est_estimateTxDependencies = Some False\<rparr> demo_world) = Inr ''called''
   \<and> run Unsigned (emitted demo_world (snd (simulateTransaction demo_crypto demo_wallet 0
          \<lparr>est_estimateTxDependencies = Some False\<rparr> demo_world)))
       = Some Simulated
   \<and> \<not> list_ex isEstimate (emitted demo_world (snd (simulateTransaction demo_crypto demo_wallet 0
          \<lparr>est_estimateTxDependencies = Some False\<rparr> demo_world)))"
proof -
  have sent: "fst (sendTransaction demo_crypto demo_wallet 0
      \<lparr>send_estimateTxDependencies = None, awaitExecution = None\<rparr> demo_world) = Inr ''sent''"
    by (simp add: method_defs demo_defs)
  have called: "fst (simulateTransaction demo_crypto demo_wallet 0
      \<lparr>est_estimateTxDependencies = Some False\<rparr> demo_world) = Inr ''called''"
    by (simp add: method_defs demo_defs)
  show ?thesis
    using sent called
      steps_in_strict_order[where cr = demo_crypto and w = demo_wallet and r = 0
        and s = demo_world
        and opts = "\<lparr>send_estimateTxDependencies = None, awaitExecution = None\<rparr>"
        and opts' = "\<lparr>est_estimateTxDependencies = Some False\<rparr>"]
    by simp
qed

section \<open>Witness population\<close>

text \<open>
  Claim C2. \<^verbatim>\<open>populateTransactionWitnessesSignature\<close> computes \<^verbatim>\<open>signTransaction\<close> on
  the request, inserts the signature into the witness slot owned by the address of the
  wallet, through the witness insertion of the request, and returns the mutated request.
  Here: when signing yields \<open>sig\<close> and the insertion yields \<open>tx'\<close>, the call returns the
  reference it was given, the only object that changed is that request, now \<open>tx'\<close>, the
  write is the single event after signing, and \<open>tx'\<close> is the request with \<open>sig\<close> in the
  slot resolved for the address of the wallet.
\<close>

theorem populate_signs_then_inserts:
  assumes "signTransaction cr w r s = (Inr sig, s1)"
    and "updateWitnessByOwner (heap s1 r) (address w) sig = Inr tx'"
  shows "fst (populateTransactionWitnessesSignature cr w r s) = Inr r
    \<and> heap (snd (populateTransactionWitnessesSignature cr w r s)) = (heap s)(r := tx')
    \<and> emitted s1 (snd (populateTransactionWitnessesSignature cr w r s))
        = [EvUpdateWitness r (address w) sig]
    \<and> (\<exists>i. resolveWitnessIndex (inputs (heap s r)) (address w) = Some i
          \<and> tx' = (heap s r)\<lparr>witnesses := setWitness (witnesses (heap s r)) i sig\<rparr>)"
proof -
  from assms(1) have s1: "s1 = snd (signTransaction cr w r s)"
    and res: "fst (signTransaction cr w r s) = Inr sig" by simp_all
  from s1 have h: "heap s1 = heap s" by (simp add: signTransaction_world)
  from assms(2) h obtain i where
    i: "resolveWitnessIndex (inputs (heap s r)) (address w) = Some i"
    and tx': "tx' = (heap s r)\<lparr>witnesses := setWitness (witnesses (heap s r)) i sig\<rparr>"
    by (auto simp: updateWitnessByOwner_def split: option.splits)
  have "populateTransactionWitnessesSignature cr w r s =
      (Inr r, s1\<lparr>heap := (heap s)(r := tx'), trace := trace s1 @ [EvUpdateWitness r (address w) sig]\<rparr>)"
    using assms(2) h res by (simp add: populate_unfold s1[symmetric])
  then show ?thesis using i tx' by (simp add: emitted_def)
qed

theorem populate_signs_then_inserts_witness:
  "signTransaction demo_crypto demo_wallet 0 demo_world
     = (Inr [7, 1], demo_world\<lparr>trace := [EvGetChain]\<rparr>)
   \<and> updateWitnessByOwner owned_tx [7, 7] [7, 1] = Inr (owned_tx\<lparr>witnesses := [[7, 1]]\<rparr>)
   \<and> fst (populateTransactionWitnessesSignature demo_crypto demo_wallet 0 demo_world) = Inr 0
   \<and> heap (snd (populateTransactionWitnessesSignature demo_crypto demo_wallet 0 demo_world))
       = (heap demo_world)(0 := owned_tx\<lparr>witnesses := [[7, 1]]\<rparr>)"
proof -
  have signed: "signTransaction demo_crypto demo_wallet 0 demo_world
      = (Inr [7, 1], demo_world\<lparr>trace := [EvGetChain]\<rparr>)"
    by (simp add: method_defs demo_defs)
  have inserted: "updateWitnessByOwner (heap (demo_world\<lparr>trace := [EvGetChain]\<rparr>) 0)
      (address demo_wallet) [7, 1] = Inr (owned_tx\<lparr>witnesses := [[7, 1]]\<rparr>)"
    by (simp add: method_defs demo_defs)
  have "updateWitnessByOwner owned_tx [7, 7] [7, 1] = Inr (owned_tx\<lparr>witnesses := [[7, 1]]\<rparr>)"
    by (simp add: method_defs demo_defs)
  then show ?thesis
    using signed populate_signs_then_inserts[OF signed inserted] by simp
qed

text \<open>
  Claim C4. When no input of the request is owned by the address of the wallet,
  \<^verbatim>\<open>populateTransactionWitnessesSignature\<close> fails with \<open>UnknownOwnerError\<close>, raised by
  the witness insertion, and the error reaches the caller unchanged. Here: the call
  always fails and leaves every request as it was; once signing has produced a
  signature the error is \<open>UnknownOwnerError\<close> itself (a call whose signing step fails
  stops there, with that error).
\<close>

theorem populate_unknown_owner:
  assumes "\<forall>i \<in> set (inputs (heap s r)). owner i \<noteq> Some (address w)"
  shows "fst (populateTransactionWitnessesSignature cr w r s)
      = (case fst (signTransaction cr w r s) of
           Inl e \<Rightarrow> Inl e
         | Inr sig \<Rightarrow> Inl UnknownOwnerError)
    \<and> heap (snd (populateTransactionWitnessesSignature cr w r s)) = heap s"
proof -
  from assms have "resolveWitnessIndex (inputs (heap s r)) (address w) = None"
    by (simp add: resolveWitnessIndex_None)
  then show ?thesis
    by (simp add: populate_unfold updateWitnessByOwner_def signTransaction_world split: sum.split)
qed

theorem populate_unknown_owner_witness:
  "map owner (inputs (heap demo_world 1)) = [Some [9, 9], None]
   \<and> address demo_wallet = [7, 7]
   \<and> fst (signTransaction demo_crypto demo_wallet 1 demo_world) = Inr [7, 2]
   \<and> fst (populateTransactionWitnessesSignature demo_crypto demo_wallet 1 demo_world)
       = Inl UnknownOwnerError"
proof -
  have foreign: "\<forall>i \<in> set (inputs (heap demo_world 1)). owner i \<noteq> Some (address demo_wallet)"
    by (simp add: demo_defs)
  have signed: "fst (signTransaction demo_crypto demo_wallet 1 demo_world) = Inr [7, 2]"
    by (simp add: method_defs demo_defs)
  have owners: "map owner (inputs (heap demo_world 1)) = [Some [9, 9], None]"
    and mine: "address demo_wallet = [7, 7]"
    by (simp_all add: demo_defs)
  from signed populate_unknown_owner[OF foreign, of demo_crypto]
  have "fst (populateTransactionWitnessesSignature demo_crypto demo_wallet 1 demo_world)
      = Inl UnknownOwnerError"
    by simp
  with owners mine signed show ?thesis by blast
qed

text \<open>
  Claim C6. Inserting a witness twice with the same owner and the same signature
  leaves the witness list as a single insertion does, and so populating the witnesses
  of a request twice has the effect of populating them once. Here: a second insertion
  on the result of the first returns that result, and a second population leaves every
  request as the first one left it and returns what the first one returned.
\<close>

theorem witness_insertion_idempotent:
  "(updateWitnessByOwner tx a sig = Inr tx1 \<longrightarrow> updateWitnessByOwner tx1 a sig = Inr tx1)
   \<and> heap (snd (populateTransactionWitnessesSignature cr w r
            (snd (populateTransactionWitnessesSignature cr w r s))))
       = heap (snd (populateTransactionWitnessesSignature cr w r s))
   \<and> fst (populateTransactionWitnessesSignature cr w r
            (snd (populateTransactionWitnessesSignature cr w r s)))
       = fst (populateTransactionWitnessesSignature cr w r s)"
  using updateWitnessByOwner_idem[of tx a sig tx1] populate_twice[of cr w r s] by blast

theorem witness_insertion_idempotent_witness:
  "updateWitnessByOwner owned_tx [7, 7] [7, 1] = Inr (owned_tx\<lparr>witnesses := [[7, 1]]\<rparr>)
   \<and> updateWitnessByOwner (owned_tx\<lparr>witnesses := [[7, 1]]\<rparr>) [7, 7] [7, 1]
       = Inr (owned_tx\<lparr>witnesses := [[7, 1]]\<rparr>)
   \<and> witnesses (heap (snd (populateTransactionWitnessesSignature demo_crypto demo_wallet 0
        (snd (populateTransactionWitnessesSignature demo_crypto demo_wallet 0 demo_world)))) 0)
       = [[7, 1]]"
proof -
  have first: "updateWitnessByOwner owned_tx [7, 7] [7, 1] = Inr (owned_tx\<lparr>witnesses := [[7, 1]]\<rparr>)"
    by (simp add: method_defs demo_defs)
  have once: "witnesses (heap (snd (populateTransactionWitnessesSignature demo_crypto
      demo_wallet 0 demo_world)) 0) = [[7, 1]]"
    by (simp add: method_defs demo_defs)
  show ?thesis
    using first once
      witness_insertion_idempotent[where tx = owned_tx and a = "[7, 7]" and sig = "[7, 1]"
        and ?tx1.0 = "owned_tx\<lparr>witnesses := [[7, 1]]\<rparr>" and cr = demo_crypto
        and w = demo_wallet and r = 0 and s = demo_world]
    by simp
qed

section \<open>Signing\<close>

text \<open>
  Claim C7. \<^verbatim>\<open>signTransaction\<close> retrieves the chain id from the provider, computes the
  digest of the request bound to that chain id and signs it with the key of the wallet.
  It mutates neither the request nor any other state, and its only interaction with a
  collaborator is the retrieval of the chain id.
\<close>

theorem signTransaction_frame:
  "heap (snd (signTransaction cr w r s)) = heap s
   \<and> emitted s (snd (signTransaction cr w r s))
       = (case provider w of None \<Rightarrow> [] | Some p \<Rightarrow> [EvGetChain])
   \<and> (\<forall>p chainId. provider w = Some p \<longrightarrow> getChain p = Inr chainId \<longrightarrow>
         fst (signTransaction cr w r s)
           = Signer_sign cr (signer w) (getTransactionId cr (heap s r) chainId))"
  by (simp add: signTransaction_world signTransaction_result emitted_def)

theorem signTransaction_frame_witness:
  "provider demo_wallet = Some demo_provider \<and> getChain demo_provider = Inr 0
   \<and> fst (signTransaction demo_crypto demo_wallet 0 demo_world)
       = Signer_sign demo_crypto (signer demo_wallet) (getTransactionId demo_crypto owned_tx 0)
   \<and> fst (signTransaction demo_crypto demo_wallet 0 demo_world) = Inr [7, 1]
   \<and> emitted demo_world (snd (signTransaction demo_crypto demo_wallet 0 demo_world)) = [EvGetChain]"
proof -
  have p: "provider demo_wallet = Some demo_provider" by (simp add: demo_defs)
  have c: "getChain demo_provider = Inr 0" by (simp add: demo_defs)
  have h: "heap demo_world 0 = owned_tx" by (simp add: demo_defs)
  have v: "Signer_sign demo_crypto (signer demo_wallet) (getTransactionId demo_crypto owned_tx 0)
      = Inr [7, 1]"
    by (simp add: method_defs demo_defs)
  show ?thesis
    using p c h v signTransaction_frame[of demo_crypto demo_wallet 0 demo_world] by simp
qed

section \<open>Keys and addresses\<close>

text \<open>
  Claim C9. Construction and address derivation are deterministic: two wallets
  constructed from the same private-key bytes have the same address and the same
  public key, whatever provider each was given.
\<close>

theorem same_key_same_address:
  assumes "BaseWalletUnlocked_new cr key prov = Inr w"
    and "BaseWalletUnlocked_new cr key prov' = Inr w'"
  shows "address w = address w' \<and> publicKey w = publicKey w'
    \<and> publicKey w = derivePublicKey cr key
    \<and> address w = deriveAddress cr (derivePublicKey cr key)"
  using assms
  by (auto simp: BaseWalletUnlocked_new_def Signer_new_def publicKey_def split: if_splits)

theorem same_key_same_address_witness:
  "BaseWalletUnlocked_new demo_crypto [7, 1] (Some demo_provider) = Inr demo_wallet
   \<and> BaseWalletUnlocked_new demo_crypto [7, 1] None = Inr (demo_wallet\<lparr>provider := None\<rparr>)
   \<and> address demo_wallet = address (demo_wallet\<lparr>provider := None\<rparr>)
   \<and> publicKey demo_wallet = publicKey (demo_wallet\<lparr>provider := None\<rparr>)
   \<and> address demo_wallet = [7, 7]"
proof -
  have a: "BaseWalletUnlocked_new demo_crypto [7, 1] (Some demo_provider) = Inr demo_wallet"
    by (simp add: BaseWalletUnlocked_new_def Signer_new_def demo_defs)
  have b: "BaseWalletUnlocked_new demo_crypto [7, 1] None = Inr (demo_wallet\<lparr>provider := None\<rparr>)"
    by (simp add: BaseWalletUnlocked_new_def Signer_new_def demo_defs)
  have c: "address demo_wallet = [7, 7]" by (simp add: demo_defs)
  from same_key_same_address[OF a b]
  have "address demo_wallet = address (demo_wallet\<lparr>provider := None\<rparr>)
      \<and> publicKey demo_wallet = publicKey (demo_wallet\<lparr>provider := None\<rparr>)"
    by blast
  with a b c show ?thesis by blast
qed

section \<open>What reaches the provider\<close>

text \<open>
  Claim C3. Every call of \<^verbatim>\<open>sendTransaction\<close> passes \<^verbatim>\<open>estimateTxDependencies\<close> to the
  submission entry point of the provider as disabled, and every call of
  \<^verbatim>\<open>simulateTransaction\<close> calls the simulation entry point with UTXO validation enabled
  and \<^verbatim>\<open>estimateTxDependencies\<close> disabled. Here: every event of a call carries these
  flags, and a call that returns ends with the submission (or simulation) carrying them,
  together with the caller's \<^verbatim>\<open>awaitExecution\<close>.
\<close>

theorem provider_estimation_disabled:
  "(list_all estimationDisabled (emitted s (snd (sendTransaction cr w r opts s)))
    \<and> (\<forall>resp. fst (sendTransaction cr w r opts s) = Inr resp \<longrightarrow>
         (\<exists>tx. last (emitted s (snd (sendTransaction cr w r opts s)))
                 = EvSendTransaction tx
                     \<lparr>send_estimateTxDependencies = Some False,
                      awaitExecution = awaitExecution opts\<rparr>)))
   \<and> (list_all estimationDisabled (emitted s (snd (simulateTransaction cr w r opts' s)))
    \<and> (\<forall>res. fst (simulateTransaction cr w r opts' s) = Inr res \<longrightarrow>
         (\<exists>tx. last (emitted s (snd (simulateTransaction cr w r opts' s)))
                 = EvCall tx \<lparr>utxoValidation = Some True,
                               call_estimateTxDependencies = Some False\<rparr>)))"
  by (rule conjI[OF sendTransaction_flags simulateTransaction_flags])

theorem provider_estimation_disabled_witness:
  "fst (sendTransaction demo_crypto demo_wallet 0
          \<lparr>send_estimateTxDependencies = Some True, awaitExecution = Some True\<rparr> demo_world)
     = Inr ''sent''
   \<and> (\<exists>tx. last (emitted demo_world (snd (sendTransaction demo_crypto demo_wallet 0
          \<lparr>send_estimateTxDependencies = Some True, awaitExecution = Some True\<rparr> demo_world)))
        = EvSendTransaction tx
            \<lparr>send_estimateTxDependencies = Some False, awaitExecution = Some True\<rparr>)
   \<and> fst (simulateTransaction demo_crypto demo_wallet 0
          \<lparr>est_estimateTxDependencies = None\<rparr> demo_world) = Inr ''called''
   \<and> (\<exists>tx. last (emitted demo_world (snd (simulateTransaction demo_crypto demo_wallet 0
          \<lparr>est_estimateTxDependencies = None\<rparr> demo_world)))
        = EvCall tx \<lparr>utxoValidation = Some True, call_estimateTxDependencies = Some False\<rparr>)"
proof -
  have sent: "fst (sendTransaction demo_crypto demo_wallet 0
      \<lparr>send_estimateTxDependencies = Some True, awaitExecution = Some True\<rparr> demo_world)
      = Inr ''sent''"
    by (simp add: method_defs demo_defs)
  have called: "fst (simulateTransaction demo_crypto demo_wallet 0
      \<lparr>est_estimateTxDependencies = None\<rparr> demo_world) = Inr ''called''"
    by (simp add: method_defs demo_defs)
  show ?thesis
    using sent called
      provider_estimation_disabled[where cr = demo_crypto and w = demo_wallet and r = 0
        and s = demo_world
        and opts = "\<lparr>send_estimateTxDependencies = Some True, awaitExecution = Some True\<rparr>"
        and opts' = "\<lparr>est_estimateTxDependencies = None\<rparr>"]
    by simp
qed

text \<open>
  Claim C10. A call of \<^verbatim>\<open>sendTransaction\<close> or \<^verbatim>\<open>simulateTransaction\<close> with the option
  \<^verbatim>\<open>estimateTxDependencies\<close> set to false estimates nowhere: the wallet skips its own
  estimation call, and the flag handed to the provider is false all the same.
\<close>

theorem opting_out_of_estimation:
  "(send_estimateTxDependencies opts = Some False \<longrightarrow>
      \<not> list_ex isEstimate (emitted s (snd (sendTransaction cr w r opts s)))
      \<and> list_all estimationDisabled (emitted s (snd (sendTransaction cr w r opts s))))
   \<and> (est_estimateTxDependencies opts' = Some False \<longrightarrow>
      \<not> list_ex isEstimate (emitted s (snd (simulateTransaction cr w r opts' s)))
      \<and> list_all estimationDisabled (emitted s (snd (simulateTransaction cr w r opts' s))))"
  using sendTransaction_order[of cr w r opts s] simulateTransaction_order[of cr w r opts' s]
    sendTransaction_flags[of s cr w r opts] simulateTransaction_flags[of s cr w r opts']
  by blast

theorem opting_out_of_estimation_witness:
  "emitted demo_world (snd (sendTransaction demo_crypto demo_wallet 0
      \<lparr>send_estimateTxDependencies = Some False, awaitExecution = None\<rparr> demo_world))
     = [EvGetChain, EvUpdateWitness 0 [7, 7] [7, 1],
        EvSendTransaction (owned_tx\<lparr>witnesses := [[7, 1]]\<rparr>)
          \<lparr>send_estimateTxDependencies = Some False, awaitExecution = None\<rparr>]
   \<and> \<not> list_ex isEstimate (emitted demo_world (snd (sendTransaction demo_crypto demo_wallet 0
      \<lparr>send_estimateTxDependencies = Some False, awaitExecution = None\<rparr> demo_world)))
   \<and> \<not> list_ex isEstimate (emitted demo_world (snd (simulateTransaction demo_crypto demo_wallet 0
      \<lparr>est_estimateTxDependencies = Some False\<rparr> demo_world)))"
proof -
  have evs: "emitted demo_world (snd (sendTransaction demo_crypto demo_wallet 0
      \<lparr>send_estimateTxDependencies = Some False, awaitExecution = None\<rparr> demo_world))
     = [EvGetChain, EvUpdateWitness 0 [7, 7] [7, 1],
        EvSendTransaction (owned_tx\<lparr>witnesses := [[7, 1]]\<rparr>)
          \<lparr>send_estimateTxDependencies = Some False, awaitExecution = None\<rparr>]"
    by (simp add: method_defs demo_defs)
  have "\<not> list_ex isEstimate (emitted demo_world (snd (sendTransaction demo_crypto demo_wallet 0
        \<lparr>send_estimateTxDependencies = Some False, awaitExecution = None\<rparr> demo_world)))
      \<and> \<not> list_ex isEstimate (emitted demo_world (snd (simulateTransaction demo_crypto
        demo_wallet 0 \<lparr>est_estimateTxDependencies = Some False\<rparr> demo_world)))"
    using opting_out_of_estimation[where cr = demo_crypto and w = demo_wallet and r = 0
        and s = demo_world
        and opts = "\<lparr>send_estimateTxDependencies = Some False, awaitExecution = None\<rparr>"
        and opts' = "\<lparr>est_estimateTxDependencies = Some False\<rparr>"]
    by simp
  with evs show ?thesis by blast
qed

section \<open>Message signing and the custody of the key\<close>

text \<open>
  Message signing is local: the message hash is signed with the key of the wallet and
  the world is left as it was, without any call to the provider.
\<close>

lemma signMessage_local:
  "fst (signMessage cr w message s) = Signer_sign cr (signer w) (hashMessage cr message)
   \<and> snd (signMessage cr w message s) = s
   \<and> emitted s (snd (signMessage cr w message s)) = []"
  by (simp add: signMessage_def emitted_def)

text \<open>
  Claim C5. The private key is never exposed by a public operation other than through
  a signature: no operation returns or serialises the key itself. The getter
  \<^verbatim>\<open>privateKey\<close> does return it: a wallet built from the key \<open>[7, 1]\<close> answers
  \<open>[7, 1]\<close>.
\<close>

theorem privateKey_getter_counterexample:
  "BaseWalletUnlocked_new demo_crypto [7, 1] (Some demo_provider) = Inr demo_wallet
   \<and> privateKey demo_wallet = [7, 1]"
  by (simp add: BaseWalletUnlocked_new_def Signer_new_def privateKey_def demo_defs)

text \<open>
  Claim C5, amended. Three public members of the wallet give access to the private key:
  the accessor \<^verbatim>\<open>signer\<close> returns the signer, which holds the key the wallet was
  built from next to the public key and the address; the getter \<^verbatim>\<open>privateKey\<close>
  returns that key; and \<^verbatim>\<open>encrypt\<close> hands it to the keystore encryption. The
  remaining members, \<^verbatim>\<open>publicKey\<close>, \<^verbatim>\<open>address\<close>, \<^verbatim>\<open>provider\<close>,
  \<^verbatim>\<open>signMessage\<close>, \<^verbatim>\<open>signTransaction\<close>,
  \<^verbatim>\<open>populateTransactionWitnessesSignature\<close>, \<^verbatim>\<open>sendTransaction\<close> and
  \<^verbatim>\<open>simulateTransaction\<close>, depend on the key only through the public key derived
  from it and the signatures made with it: two wallets whose keys derive the same
  public key and sign alike answer alike there, whatever the keys are.
\<close>

theorem key_exposure:
  assumes "BaseWalletUnlocked_new cr key prov = Inr w"
    and "BaseWalletUnlocked_new cr key' prov = Inr w'"
    and "derivePublicKey cr key = derivePublicKey cr key'"
    and "ecdsaSign cr key = ecdsaSign cr key'"
  shows "signer w = \<lparr>signer_privateKey = key, signer_publicKey = publicKey w,
                      signer_address = address w\<rparr>
    \<and> signer w' = \<lparr>signer_privateKey = key', signer_publicKey = publicKey w',
                       signer_address = address w'\<rparr>
    \<and> privateKey w = key \<and> privateKey w' = key'
    \<and> encrypt cr w password = encryptKeystoreWallet cr key (address w) password
    \<and> publicKey w = publicKey w' \<and> address w = address w' \<and> provider w = provider w'
    \<and> signMessage cr w message s = signMessage cr w' message s
    \<and> signTransaction cr w r s = signTransaction cr w' r s
    \<and> populateTransactionWitnessesSignature cr w r s
        = populateTransactionWitnessesSignature cr w' r s
    \<and> sendTransaction cr w r opts s = sendTransaction cr w' r opts s
    \<and> simulateTransaction cr w r opts' s = simulateTransaction cr w' r opts' s"
proof -
  from assms(1) have k: "signer_privateKey (signer w) = key"
    and pk: "signer_publicKey (signer w) = derivePublicKey cr key"
    and ad: "address w = deriveAddress cr (derivePublicKey cr key)"
    and pr: "provider w = prov"
    by (auto simp: BaseWalletUnlocked_new_def Signer_new_def split: if_splits)
  from assms(2) have k': "signer_privateKey (signer w') = key'"
    and pk': "signer_publicKey (signer w') = derivePublicKey cr key'"
    and ad': "address w' = deriveAddress cr (derivePublicKey cr key')"
    and pr': "provider w' = prov"
    by (auto simp: BaseWalletUnlocked_new_def Signer_new_def split: if_splits)
  have same_address: "address w = address w'"
    by (simp add: ad ad' assms(3))
  have same_provider: "provider w = provider w'"
    by (simp add: pr pr')
  have sign: "Signer_sign cr (signer w) d = Signer_sign cr (signer w') d" for d
    by (simp add: Signer_sign_def k k' assms(4))
  have signed: "signTransaction cr w x t = signTransaction cr w' x t" for x t
    by (simp only: signTransaction_def sign same_provider)
  have populated: "populateTransactionWitnessesSignature cr w x t
      = populateTransactionWitnessesSignature cr w' x t" for x t
    by (simp only: populateTransactionWitnessesSignature_def signed same_address)
  have estimated: "callEstimateTxDependencies w x t = callEstimateTxDependencies w' x t" for x t
    by (simp only: callEstimateTxDependencies_def same_provider)
  have sent: "sendTransaction cr w r opts s = sendTransaction cr w' r opts s"
    by (simp only: sendTransaction_def populated estimated same_provider)
  have simulated: "simulateTransaction cr w r opts' s = simulateTransaction cr w' r opts' s"
    by (simp only: simulateTransaction_def populated estimated same_provider)
  have msg: "signMessage cr w message s = signMessage cr w' message s"
    by (simp only: signMessage_def sign)
  have enc: "encrypt cr w password = encryptKeystoreWallet cr key (address w) password"
    by (simp add: encrypt_def privateKey_def k)
  have pub: "publicKey w = publicKey w'"
    by (simp add: publicKey_def pk pk' assms(3))
  have held: "signer w = \<lparr>signer_privateKey = key, signer_publicKey = publicKey w,
      signer_address = address w\<rparr>"
    using assms(1)
    by (auto simp: BaseWalletUnlocked_new_def Signer_new_def publicKey_def split: if_splits)
  have held': "signer w' = \<lparr>signer_privateKey = key', signer_publicKey = publicKey w',
      signer_address = address w'\<rparr>"
    using assms(2)
    by (auto simp: BaseWalletUnlocked_new_def Signer_new_def publicKey_def split: if_splits)
  have "privateKey w = key" "privateKey w' = key'"
    by (simp_all add: privateKey_def k k')
  with held held' enc pub same_address same_provider msg signed populated sent simulated
  show ?thesis
    by blast
qed

theorem key_exposure_witness:
  "BaseWalletUnlocked_new demo_crypto [7, 1] (Some demo_provider) = Inr demo_wallet
   \<and> BaseWalletUnlocked_new demo_crypto [7, 2] (Some demo_provider) = Inr other_wallet
   \<and> derivePublicKey demo_crypto [7, 1] = derivePublicKey demo_crypto [7, 2]
   \<and> ecdsaSign demo_crypto [7, 1] = ecdsaSign demo_crypto [7, 2]
   \<and> signer_privateKey (signer demo_wallet) = [7, 1]
   \<and> signer_privateKey (signer other_wallet) = [7, 2]
   \<and> privateKey demo_wallet = [7, 1] \<and> privateKey other_wallet = [7, 2]
   \<and> signTransaction demo_crypto demo_wallet 0 demo_world
       = signTransaction demo_crypto other_wallet 0 demo_world"
proof -
  have a: "BaseWalletUnlocked_new demo_crypto [7, 1] (Some demo_provider) = Inr demo_wallet"
    by (simp add: BaseWalletUnlocked_new_def Signer_new_def demo_defs)
  have b: "BaseWalletUnlocked_new demo_crypto [7, 2] (Some demo_provider) = Inr other_wallet"
    by (simp add: BaseWalletUnlocked_new_def Signer_new_def demo_defs)
  have c: "derivePublicKey demo_crypto [7, 1] = derivePublicKey demo_crypto [7, 2]"
    by (simp add: demo_defs)
  have d: "ecdsaSign demo_crypto [7, 1] = ecdsaSign demo_crypto [7, 2]"
    by (simp add: demo_defs)
  note exposed = key_exposure[OF a b c d, where r = 0 and s = demo_world]
  from exposed have held: "signer demo_wallet = \<lparr>signer_privateKey = [7, 1],
      signer_publicKey = publicKey demo_wallet, signer_address = address demo_wallet\<rparr>"
    and held': "signer other_wallet = \<lparr>signer_privateKey = [7, 2],
      signer_publicKey = publicKey other_wallet, signer_address = address other_wallet\<rparr>"
    by blast+
  have e: "signer_privateKey (signer demo_wallet) = [7, 1]"
    by (subst held) simp
  have f: "signer_privateKey (signer other_wallet) = [7, 2]"
    by (subst held') simp
  from exposed
  have "privateKey demo_wallet = [7, 1] \<and> privateKey other_wallet = [7, 2]
      \<and> signTransaction demo_crypto demo_wallet 0 demo_world
          = signTransaction demo_crypto other_wallet 0 demo_world"
    by blast
  with a b c d e f show ?thesis by blast
qed

end
